theory Spec2Isabelle
  imports Complex_Main
begin

section \<open>JavaScript values\<close>

text \<open>
  The wrapper in \<^verbatim>\<open>src/SketchRNN/index.js\<close> is untyped JavaScript, so its
  arguments are modelled as JavaScript values.  A number is an IEEE double; the code
  never does arithmetic on one, it only converts, tests for truthiness, compares with
  the literal \<open>1\<close> and passes numbers on.  The finite doubles are therefore
  represented by the real they denote (\<open>Fin 0\<close> is \<open>+0\<close>), next to the four special
  values.
\<close>

datatype jsnum = Fin real | NegZero | PosInf | NegInf | NaN

text \<open>
  Plain data: what a caller writes as an object or array literal.  An object is the
  list of its own data properties in insertion order; the first binding of a key is
  the one that is read.
\<close>

datatype jsdata =
    Undefined
  | Null
  | Bool bool
  | Num jsnum
  | Str string
  | Arr "jsdata list"
  | Obj "(string \<times> jsdata) list"

text \<open>
  An argument of \<open>generate\<close> is plain data or a function (the completion
  callback); an omitted argument is \<open>Data Undefined\<close>.
\<close>

datatype jsarg = Data jsdata | Callback nat

datatype error = TypeError | LoadFailure

text \<open>
  The settlement of a promise, as seen by a caller that awaits it: fulfilled with a
  value, rejected, or never settled.
\<close>

datatype 'a promise = Fulfilled 'a | Rejected error | Pending

subsection \<open>Language primitives used by the wrapper\<close>

text \<open>ToBoolean on numbers: \<open>+0\<close>, \<open>-0\<close> and \<open>NaN\<close> are falsy.\<close>

fun num_truthy :: "jsnum \<Rightarrow> bool" where
  "num_truthy (Fin x) = (x \<noteq> 0)"
| "num_truthy NegZero = False"
| "num_truthy PosInf = True"
| "num_truthy NegInf = True"
| "num_truthy NaN = False"

fun ToBoolean :: "jsdata \<Rightarrow> bool" where
  "ToBoolean Undefined = False"
| "ToBoolean Null = False"
| "ToBoolean (Bool b) = b"
| "ToBoolean (Num n) = num_truthy n"
| "ToBoolean (Str s) = (s \<noteq> [])"
| "ToBoolean (Arr xs) = True"
| "ToBoolean (Obj fs) = True"

text \<open>
  Unary plus (ToNumber).  On \<open>undefined\<close>, \<open>null\<close>, booleans and numbers it is
  fixed by the language; on strings, arrays and objects it parses text or calls
  \<open>valueOf\<close>/\<open>toString\<close> and may throw, which is left to the engine: the
  parameter \<open>conv\<close>.
\<close>

fun ToNumber :: "(jsdata \<Rightarrow> error + jsnum) \<Rightarrow> jsdata \<Rightarrow> error + jsnum" where
  "ToNumber conv Undefined = Inr NaN"
| "ToNumber conv Null = Inr (Fin 0)"
| "ToNumber conv (Bool b) = Inr (Fin (if b then 1 else 0))"
| "ToNumber conv (Num n) = Inr n"
| "ToNumber conv (Str s) = conv (Str s)"
| "ToNumber conv (Arr xs) = conv (Arr xs)"
| "ToNumber conv (Obj fs) = conv (Obj fs)"

text \<open>
  Property read \<open>v.k\<close>, for the names the wrapper reads (\<open>pen\<close>, \<open>dx\<close>,
  \<open>dy\<close>, \<open>temperature\<close>, \<open>pixelFactor\<close>): none of them is a built-in
  property, so only an object's own properties answer.  Reading a property of
  \<open>undefined\<close> or \<open>null\<close> throws a TypeError.
\<close>

fun get_prop :: "jsdata \<Rightarrow> string \<Rightarrow> error + jsdata" where
  "get_prop Undefined k = Inl TypeError"
| "get_prop Null k = Inl TypeError"
| "get_prop (Obj fs) k = Inr (case map_of fs k of None \<Rightarrow> Undefined | Some v \<Rightarrow> v)"
| "get_prop (Bool b) k = Inr Undefined"
| "get_prop (Num n) k = Inr Undefined"
| "get_prop (Str s) k = Inr Undefined"
| "get_prop (Arr xs) k = Inr Undefined"

text \<open>Array read \<open>xs[i]\<close>: \<open>undefined\<close> beyond the end.\<close>

definition arr_get :: "jsdata list \<Rightarrow> nat \<Rightarrow> jsdata" where
  "arr_get xs i = (if i < length xs then xs ! i else Undefined)"

text \<open>Equality of doubles: \<open>NaN\<close> equals nothing, \<open>-0\<close> equals \<open>+0\<close>.\<close>

fun num_eq :: "jsnum \<Rightarrow> jsnum \<Rightarrow> bool" where
  "num_eq NaN b = False"
| "num_eq a NaN = False"
| "num_eq NegZero NegZero = True"
| "num_eq NegZero (Fin y) = (y = 0)"
| "num_eq (Fin x) NegZero = (x = 0)"
| "num_eq (Fin x) (Fin y) = (x = y)"
| "num_eq PosInf PosInf = True"
| "num_eq NegInf NegInf = True"
| "num_eq a b = False"

text \<open>
  Strict equality \<open>v === lit\<close> against a primitive literal (the wrapper compares
  with \<open>1\<close>, \<open>'up'\<close>, \<open>'down'\<close> and \<open>'end'\<close> only): values of different
  types, and arrays and objects, are never equal to a primitive.
\<close>

fun strict_eq :: "jsdata \<Rightarrow> jsdata \<Rightarrow> bool" where
  "strict_eq (Num a) (Num b) = num_eq a b"
| "strict_eq (Str a) (Str b) = (a = b)"
| "strict_eq (Bool a) (Bool b) = (a = b)"
| "strict_eq Undefined Undefined = True"
| "strict_eq Null Null = True"
| "strict_eq a b = False"

text \<open>\<open>a || b\<close> on plain data.\<close>

definition or_else :: "jsdata \<Rightarrow> jsdata \<Rightarrow> jsdata" where
  "or_else a b = (if ToBoolean a then a else b)"

text \<open>
  \<open>Array.prototype.map\<close> with a callback that may throw: the first element on
  which it throws aborts the whole call.
\<close>

fun array_map :: "('a \<Rightarrow> error + 'b) \<Rightarrow> 'a list \<Rightarrow> error + 'b list" where
  "array_map f [] = Inr []"
| "array_map f (x # xs) =
     (case f x of
        Inl e \<Rightarrow> Inl e
      | Inr y \<Rightarrow> (case array_map f xs of Inl e \<Rightarrow> Inl e | Inr ys \<Rightarrow> Inr (y # ys)))"

section \<open>What the wrapper is given\<close>

text \<open>
  The generative model is the external class \<open>ms.SketchRNN\<close> of the package
  \<^verbatim>\<open>@magenta/sketch\<close>; the wrapper only calls it.  Its methods are parameters of
  the model, over three opaque types: \<open>'m\<close>, the state of the library object
  (weights, pixel factor, random source), \<open>'r\<close>, a recurrent state, and \<open>'p\<close>, a
  probability distribution.  Following the library's declared signatures each method
  returns normally; \<open>zeroInput\<close> and \<open>sample\<close> return an array, \<open>zeroState\<close> and
  the updates return a state object (truthy), \<open>setPixelFactor\<close> changes the library
  object and \<open>sample\<close> consumes randomness, so both return the new library state.
  The asynchronous load started by \<open>initialize\<close> is represented by how its promise
  settles.

  Two more things come from outside the file: the set \<open>modelPaths\<close> of known model
  names (module \<^verbatim>\<open>./models\<close>) and the engine's ToNumber on strings, arrays and
  objects.
\<close>

record ('m, 'r, 'p) env =
  modelPaths_has :: "string \<Rightarrow> bool"
  rt_ToNumber :: "jsdata \<Rightarrow> error + jsnum"
  ms_new :: "string \<Rightarrow> 'm"
  ms_initialize :: "'m \<Rightarrow> unit promise"
  ms_zeroInput :: "'m \<Rightarrow> jsdata list"
  ms_zeroState :: "'m \<Rightarrow> 'r"
  ms_setPixelFactor :: "'m \<Rightarrow> jsnum \<Rightarrow> 'm"
  ms_updateStrokes :: "'m \<Rightarrow> jsdata list \<Rightarrow> 'r \<Rightarrow> 'r"
  ms_update :: "'m \<Rightarrow> jsdata \<Rightarrow> 'r \<Rightarrow> 'r"
  ms_getPDF :: "'m \<Rightarrow> 'r \<Rightarrow> jsnum \<Rightarrow> 'p"
  ms_sample :: "'m \<Rightarrow> 'p \<Rightarrow> jsdata list \<times> 'm"

text \<open>
  Modelled from the spec: \<open>callCallback\<close> (module \<^verbatim>\<open>../utils/callcallback\<close>) is
  not among the sources.  The spec describes it as an adapter that returns the
  asynchronous task it is given and additionally notifies the completion function,
  if one was supplied; the notification touches no session state, so the model keeps
  the promise.
\<close>

definition callCallback :: "'a promise \<Rightarrow> jsarg \<Rightarrow> 'a promise" where
  "callCallback promise callback = promise"

section \<open>The session object\<close>

text \<open>The calls made on the library object while generating, with their arguments.\<close>

datatype ('r, 'p) call =
    SetPixelFactor jsnum
  | UpdateStrokes "jsdata list" 'r
  | Update jsdata 'r
  | GetPDF 'r jsnum
  | Sample 'p

record defaults =
  temperature :: jsnum
  pixelFactor :: jsnum

text \<open>
  The fields of \<open>this\<close>.  \<open>rnnState\<close> is \<open>None\<close> while the property is
  undefined.  \<open>calls\<close> is not a field of the class: it logs, oldest first, the calls
  of \<open>setPixelFactor\<close>, \<open>updateStrokes\<close>, \<open>update\<close>, \<open>getPDF\<close> and \<open>sample\<close>
  made on \<open>this.model\<close>, so that "exactly one call" can be stated.  Calls on one
  session are taken to be serialised: each runs to completion before the next starts.
\<close>

record ('m, 'r, 'p) session =
  defaults :: defaults
  model :: 'm
  penState :: "jsdata list"
  ready :: "unit promise"
  rnnState :: "'r option"
  calls :: "('r, 'p) call list"

definition PATH_START_LARGE :: string where
  "PATH_START_LARGE = ''https://storage.googleapis.com/quickdraw-models/sketchRNN/large_models/''"

definition PATH_START_SMALL :: string where
  "PATH_START_SMALL = ''https://storage.googleapis.com/quickdraw-models/sketchRNN/models/''"

definition PATH_END :: string where
  "PATH_END = ''.gen.json''"

text \<open>The constructor (lines 28-40); \<open>large\<close> defaults to \<open>true\<close> at the call site.\<close>

definition SketchRNN ::
  "('m, 'r, 'p) env \<Rightarrow> string \<Rightarrow> jsarg \<Rightarrow> bool \<Rightarrow> ('m, 'r, 'p) session" where
  "SketchRNN E name callback large =
     (let checkpointUrl =
            (if modelPaths_has E name
             then (if large then PATH_START_LARGE else PATH_START_SMALL) @ name @ PATH_END
             else name);
          m = ms_new E checkpointUrl
      in \<lparr> defaults = \<lparr> temperature = Fin 0.65, pixelFactor = Fin 3.0 \<rparr>,
           model = m,
           penState = ms_zeroInput E m,
           ready = callCallback (ms_initialize E m) callback,
           rnnState = None,
           calls = [] \<rparr>)"

section \<open>generateInternal\<close>

text \<open>
  Lines 43-44, \<open>+options.k || this.defaults.k\<close>: read the property, convert it to
  a number, keep it when truthy and take the default otherwise.
\<close>

definition option_or_default ::
  "('m, 'r, 'p) env \<Rightarrow> jsdata \<Rightarrow> string \<Rightarrow> jsnum \<Rightarrow> error + jsnum" where
  "option_or_default E options k dflt =
     (case get_prop options k of
        Inl e \<Rightarrow> Inl e
      | Inr v \<Rightarrow>
          (case ToNumber (rt_ToNumber E) v of
             Inl e \<Rightarrow> Inl e
           | Inr n \<Rightarrow> Inr (if num_truthy n then n else dflt)))"

text \<open>Lines 58-69: the object built from the sampled pen vector.\<close>

definition decode :: "jsdata list \<Rightarrow> jsdata" where
  "decode pen =
     Obj ([(''dx'', arr_get pen 0), (''dy'', arr_get pen 1)] @
          (if strict_eq (arr_get pen 2) (Num (Fin 1)) then [(''pen'', Str ''down'')]
           else if strict_eq (arr_get pen 3) (Num (Fin 1)) then [(''pen'', Str ''up'')]
           else if strict_eq (arr_get pen 4) (Num (Fin 1)) then [(''pen'', Str ''end'')]
           else []))"

text \<open>
  Lines 47-50: the recurrent state is created on first use, and only then is the
  pixel factor handed to the library.  Returns the recurrent state to continue with.
\<close>

definition ensure_rnnState ::
  "('m, 'r, 'p) env \<Rightarrow> jsnum \<Rightarrow> ('m, 'r, 'p) session \<Rightarrow> 'r \<times> ('m, 'r, 'p) session" where
  "ensure_rnnState E pf s =
     (case rnnState s of
        Some r \<Rightarrow> (r, s)
      | None \<Rightarrow>
          (let z = ms_zeroState E (model s)
           in (z, s\<lparr> rnnState := Some z,
                     model := ms_setPixelFactor E (model s) pf,
                     calls := calls s @ [SetPixelFactor pf] \<rparr>)))"

text \<open>Lines 52-54: a non-empty array of strokes is handed to \<open>updateStrokes\<close> whole.\<close>

definition seed ::
  "('m, 'r, 'p) env \<Rightarrow> jsdata \<Rightarrow> 'r \<Rightarrow> ('m, 'r, 'p) session \<Rightarrow> 'r \<times> ('m, 'r, 'p) session" where
  "seed E strokes r s =
     (case strokes of
        Arr xs \<Rightarrow>
          (if xs \<noteq> []
           then (let r' = ms_updateStrokes E (model s) xs r
                 in (r', s\<lparr> rnnState := Some r', calls := calls s @ [UpdateStrokes xs r] \<rparr>))
           else (r, s))
      | _ \<Rightarrow> (r, s))"

text \<open>Lines 55-57: one update with the pen state, one distribution, one sample.\<close>

definition step ::
  "('m, 'r, 'p) env \<Rightarrow> jsnum \<Rightarrow> 'r \<Rightarrow> ('m, 'r, 'p) session \<Rightarrow> ('m, 'r, 'p) session" where
  "step E temp r s =
     (let r' = ms_update E (model s) (Arr (penState s)) r;
          pdf = ms_getPDF E (model s) r' temp;
          (pen, m') = ms_sample E (model s) pdf
      in s\<lparr> rnnState := Some r',
            penState := pen,
            model := m',
            calls := calls s @ [Update (Arr (penState s)) r, GetPDF r' temp, Sample pdf] \<rparr>)"

text \<open>
  The whole method.  An exception thrown before the \<open>await\<close> rejects the returned
  promise; a rejected \<open>ready\<close> rejects it at the \<open>await\<close>; a \<open>ready\<close> that
  never settles leaves it pending.  The result is the settlement of the returned
  promise and the session afterwards.
\<close>

definition generateInternal ::
  "('m, 'r, 'p) env \<Rightarrow> ('m, 'r, 'p) session \<Rightarrow> jsdata \<Rightarrow> jsdata
     \<Rightarrow> jsdata promise \<times> ('m, 'r, 'p) session" where
  "generateInternal E s options strokes =
     (case option_or_default E options ''temperature'' (temperature (defaults s)) of
        Inl e \<Rightarrow> (Rejected e, s)
      | Inr temp \<Rightarrow>
     (case option_or_default E options ''pixelFactor'' (pixelFactor (defaults s)) of
        Inl e \<Rightarrow> (Rejected e, s)
      | Inr pf \<Rightarrow>
     (case ready s of
        Pending \<Rightarrow> (Pending, s)
      | Rejected e \<Rightarrow> (Rejected e, s)
      | Fulfilled u \<Rightarrow>
          (let (r0, s0) = ensure_rnnState E pf s;
               (r1, s1) = seed E strokes r0 s0;
               s2 = step E temp r1 s1
           in (Fulfilled (decode (penState s2)), s2)))))"

section \<open>generate and reset\<close>

text \<open>Lines 95-100: the function mapped over the seed strokes.\<close>

definition encode :: "jsdata \<Rightarrow> error + jsdata" where
  "encode s =
     (case get_prop s ''pen'' of
        Inl e \<Rightarrow> Inl e
      | Inr p \<Rightarrow>
          (let up = (if strict_eq p (Str ''up'') then Fin 1 else Fin 0);
               down = (if strict_eq p (Str ''down'') then Fin 1 else Fin 0);
               end' = (if strict_eq p (Str ''end'') then Fin 1 else Fin 0)
           in (case get_prop s ''dx'' of
                 Inl e \<Rightarrow> Inl e
               | Inr dx \<Rightarrow>
                   (case get_prop s ''dy'' of
                      Inl e \<Rightarrow> Inl e
                    | Inr dy \<Rightarrow> Inr (Arr [dx, dy, Num down, Num up, Num end'])))))"

text \<open>
  Lines 77-93: which argument is the options object, which the seed strokes and
  which the callback.  The equations are tried in order, as the \<open>if\<close> chain is.
\<close>

fun overload :: "jsarg \<Rightarrow> jsarg \<Rightarrow> jsarg \<Rightarrow> jsdata \<times> jsdata \<times> jsarg" where
  "overload (Callback f) seedOrCallback cb = (Obj [], Arr [], Callback f)"
| "overload (Data (Arr xs)) seedOrCallback cb = (Obj [], Arr xs, seedOrCallback)"
| "overload (Data opts) (Callback f) cb = (or_else opts (Obj []), Arr [], Callback f)"
| "overload (Data opts) (Data sd) cb = (or_else opts (Obj []), or_else sd (Arr []), cb)"

text \<open>
  Lines 72-102.  \<open>seedStrokes.map\<close> exists only on an array: on any other (truthy)
  plain value the call throws a TypeError, as it does when the mapped function
  throws; both happen before \<open>generateInternal\<close> is entered.
\<close>

definition generate ::
  "('m, 'r, 'p) env \<Rightarrow> ('m, 'r, 'p) session \<Rightarrow> jsarg \<Rightarrow> jsarg \<Rightarrow> jsarg
     \<Rightarrow> jsdata promise \<times> ('m, 'r, 'p) session" where
  "generate E s optionsOrSeedOrCallback seedOrCallback cb =
     (case overload optionsOrSeedOrCallback seedOrCallback cb of
        (options, seedStrokes, callback) \<Rightarrow>
          (case seedStrokes of
             Arr xs \<Rightarrow>
               (case array_map encode xs of
                  Inl e \<Rightarrow> (Rejected e, s)
                | Inr strokes \<Rightarrow>
                    (case generateInternal E s options (Arr strokes) of
                       (p, s') \<Rightarrow> (callCallback p callback, s')))
           | _ \<Rightarrow> (Rejected TypeError, s)))"

text \<open>Lines 104-109.\<close>

definition reset :: "('m, 'r, 'p) env \<Rightarrow> ('m, 'r, 'p) session \<Rightarrow> ('m, 'r, 'p) session" where
  "reset E s =
     (let s1 = s\<lparr> penState := ms_zeroInput E (model s) \<rparr>
      in (case rnnState s1 of
            Some r \<Rightarrow> s1\<lparr> rnnState := Some (ms_zeroState E (model s1)) \<rparr>
          | None \<Rightarrow> s1))"

text \<open>A caller's use of a session: any sequence of \<open>generate\<close> and \<open>reset\<close> calls.\<close>

datatype op = Generate jsarg jsarg jsarg | Reset

fun apply_op :: "('m, 'r, 'p) env \<Rightarrow> ('m, 'r, 'p) session \<Rightarrow> op \<Rightarrow> ('m, 'r, 'p) session" where
  "apply_op E s (Generate a b c) = snd (generate E s a b c)"
| "apply_op E s Reset = reset E s"

definition run :: "('m, 'r, 'p) env \<Rightarrow> ('m, 'r, 'p) session \<Rightarrow> op list \<Rightarrow> ('m, 'r, 'p) session" where
  "run E s ops = foldl (apply_op E) s ops"

section \<open>A deterministic stand-in for the library\<close>

text \<open>
  Used where a theorem is instantiated at a concrete session.  The library state is
  the number of samples drawn so far and the pixel factor; a recurrent state is the
  list of strokes observed; a distribution is the recurrent state with the
  temperature; the sample is a pen-up stroke whose \<open>dx\<close> is the length of that list
  and whose \<open>dy\<close> is the pixel factor.  The only
  known model name is \<open>cat\<close>; strings, arrays and objects convert to \<open>NaN\<close>.
\<close>

definition stub :: "(nat \<times> jsnum, jsdata list, jsdata list \<times> jsnum) env" where
  "stub =
     \<lparr> modelPaths_has = (\<lambda>name. name = ''cat''),
       rt_ToNumber = (\<lambda>v. Inr NaN),
       ms_new = (\<lambda>url. (0, Fin 1)),
       ms_initialize = (\<lambda>m. Fulfilled ()),
       ms_zeroInput = (\<lambda>m. [Num (Fin 0), Num (Fin 0), Num (Fin 1), Num (Fin 0), Num (Fin 0)]),
       ms_zeroState = (\<lambda>m. []),
       ms_setPixelFactor = (\<lambda>m pf. (fst m, pf)),
       ms_updateStrokes = (\<lambda>m xs r. foldl (\<lambda>r' x. r' @ [x]) r xs),
       ms_update = (\<lambda>m x r. r @ [x]),
       ms_getPDF = (\<lambda>m r temp. (r, temp)),
       ms_sample = (\<lambda>m pdf. ([Num (Fin (real (length (fst pdf)))), Num (snd m),
                               Num (Fin 0), Num (Fin 1), Num (Fin 0)], (Suc (fst m), snd m))) \<rparr>"

section \<open>The stroke codec\<close>

lemma strict_eq_Str: "strict_eq p (Str k) \<longleftrightarrow> p = Str k"
  by (cases p) auto

lemma get_prop_total: "get_prop s k = Inr v \<Longrightarrow> \<exists>w. get_prop s k' = Inr w"
  by (cases s) auto

text \<open>
  Claim C6.  Decoding an internal 5-tuple puts element 0 in \<open>dx\<close> and element 1 in
  \<open>dy\<close>.  The \<open>pen\<close> field is \<open>down\<close> whenever the flag at index 2 is \<open>1\<close>,
  whatever the other flags are; otherwise \<open>up\<close> when the flag at index 3 is \<open>1\<close>;
  otherwise \<open>end\<close> when the flag at index 4 is \<open>1\<close>; when no flag is \<open>1\<close> the
  object has no \<open>pen\<close> field.  In particular a vector with \<open>down = 1\<close> and
  \<open>up = 1\<close> decodes to \<open>pen = "down"\<close>.
\<close>

theorem decode_priority:
  "get_prop (decode [dx, dy, d, u, e]) ''dx'' = Inr dx \<and>
   get_prop (decode [dx, dy, d, u, e]) ''dy'' = Inr dy \<and>
   (strict_eq d (Num (Fin 1)) \<longrightarrow>
      decode [dx, dy, d, u, e] = Obj [(''dx'', dx), (''dy'', dy), (''pen'', Str ''down'')]) \<and>
   (\<not> strict_eq d (Num (Fin 1)) \<and> strict_eq u (Num (Fin 1)) \<longrightarrow>
      decode [dx, dy, d, u, e] = Obj [(''dx'', dx), (''dy'', dy), (''pen'', Str ''up'')]) \<and>
   (\<not> strict_eq d (Num (Fin 1)) \<and> \<not> strict_eq u (Num (Fin 1)) \<and> strict_eq e (Num (Fin 1)) \<longrightarrow>
      decode [dx, dy, d, u, e] = Obj [(''dx'', dx), (''dy'', dy), (''pen'', Str ''end'')]) \<and>
   (\<not> strict_eq d (Num (Fin 1)) \<and> \<not> strict_eq u (Num (Fin 1)) \<and> \<not> strict_eq e (Num (Fin 1)) \<longrightarrow>
      decode [dx, dy, d, u, e] = Obj [(''dx'', dx), (''dy'', dy)]) \<and>
   decode [dx, dy, Num (Fin 1), Num (Fin 1), e] = Obj [(''dx'', dx), (''dy'', dy), (''pen'', Str ''down'')]"
  by (simp add: decode_def arr_get_def)

theorem decode_priority_witness:
  "decode [Num (Fin 2), Num (Fin 3), Num (Fin 1), Num (Fin 0), Num (Fin 1)]
     = Obj [(''dx'', Num (Fin 2)), (''dy'', Num (Fin 3)), (''pen'', Str ''down'')] \<and>
   decode [Num (Fin 2), Num (Fin 3), Num (Fin 0), Num (Fin 1), Num (Fin 1)]
     = Obj [(''dx'', Num (Fin 2)), (''dy'', Num (Fin 3)), (''pen'', Str ''up'')] \<and>
   decode [Num (Fin 2), Num (Fin 3), Num (Fin 0), Num (Fin 0), Num (Fin 1)]
     = Obj [(''dx'', Num (Fin 2)), (''dy'', Num (Fin 3)), (''pen'', Str ''end'')] \<and>
   decode [Num (Fin 2), Num (Fin 3), Num (Fin 0), Num (Fin 0), Num (Fin 0)]
     = Obj [(''dx'', Num (Fin 2)), (''dy'', Num (Fin 3))]"
  using decode_priority [of "Num (Fin 2)" "Num (Fin 3)" "Num (Fin 1)" "Num (Fin 0)" "Num (Fin 1)"]
        decode_priority [of "Num (Fin 2)" "Num (Fin 3)" "Num (Fin 0)" "Num (Fin 1)" "Num (Fin 1)"]
        decode_priority [of "Num (Fin 2)" "Num (Fin 3)" "Num (Fin 0)" "Num (Fin 0)" "Num (Fin 1)"]
        decode_priority [of "Num (Fin 2)" "Num (Fin 3)" "Num (Fin 0)" "Num (Fin 0)" "Num (Fin 0)"]
  by simp

text \<open>
  Claim C7.  Encoding a public stroke yields the array \<open>[dx, dy, down, up, end]\<close>:
  \<open>dx\<close> and \<open>dy\<close> are the stroke's own values, unchanged, and the three flags are
  \<open>[1,0,0]\<close> for \<open>pen = "down"\<close>, \<open>[0,1,0]\<close> for \<open>"up"\<close>, \<open>[0,0,1]\<close> for
  \<open>"end"\<close> and \<open>[0,0,0]\<close> when the \<open>pen\<close> field is absent.
\<close>

theorem encode_flags:
  assumes "get_prop s ''dx'' = Inr dx" and "get_prop s ''dy'' = Inr dy"
  shows "(get_prop s ''pen'' = Inr (Str ''down'') \<longrightarrow>
            encode s = Inr (Arr [dx, dy, Num (Fin 1), Num (Fin 0), Num (Fin 0)])) \<and>
         (get_prop s ''pen'' = Inr (Str ''up'') \<longrightarrow>
            encode s = Inr (Arr [dx, dy, Num (Fin 0), Num (Fin 1), Num (Fin 0)])) \<and>
         (get_prop s ''pen'' = Inr (Str ''end'') \<longrightarrow>
            encode s = Inr (Arr [dx, dy, Num (Fin 0), Num (Fin 0), Num (Fin 1)])) \<and>
         (get_prop s ''pen'' = Inr Undefined \<longrightarrow>
            encode s = Inr (Arr [dx, dy, Num (Fin 0), Num (Fin 0), Num (Fin 0)]))"
  using assms by (simp add: encode_def)

theorem encode_flags_witness:
  "encode (Obj [(''dx'', Num (Fin 2)), (''dy'', Num (Fin (-3))), (''pen'', Str ''down'')])
     = Inr (Arr [Num (Fin 2), Num (Fin (-3)), Num (Fin 1), Num (Fin 0), Num (Fin 0)]) \<and>
   encode (Obj [(''dx'', Num (Fin 2)), (''dy'', Num (Fin (-3))), (''pen'', Str ''up'')])
     = Inr (Arr [Num (Fin 2), Num (Fin (-3)), Num (Fin 0), Num (Fin 1), Num (Fin 0)]) \<and>
   encode (Obj [(''dx'', Num (Fin 2)), (''dy'', Num (Fin (-3))), (''pen'', Str ''end'')])
     = Inr (Arr [Num (Fin 2), Num (Fin (-3)), Num (Fin 0), Num (Fin 0), Num (Fin 1)]) \<and>
   encode (Obj [(''dx'', Num (Fin 2)), (''dy'', Num (Fin (-3)))])
     = Inr (Arr [Num (Fin 2), Num (Fin (-3)), Num (Fin 0), Num (Fin 0), Num (Fin 0)])"
  using encode_flags [of "Obj [(''dx'', Num (Fin 2)), (''dy'', Num (Fin (-3))), (''pen'', Str ''down'')]"
                         "Num (Fin 2)" "Num (Fin (-3))"]
        encode_flags [of "Obj [(''dx'', Num (Fin 2)), (''dy'', Num (Fin (-3))), (''pen'', Str ''up'')]"
                         "Num (Fin 2)" "Num (Fin (-3))"]
        encode_flags [of "Obj [(''dx'', Num (Fin 2)), (''dy'', Num (Fin (-3))), (''pen'', Str ''end'')]"
                         "Num (Fin 2)" "Num (Fin (-3))"]
        encode_flags [of "Obj [(''dx'', Num (Fin 2)), (''dy'', Num (Fin (-3)))]"
                         "Num (Fin 2)" "Num (Fin (-3))"]
  by simp

text \<open>
  Claim C8.  Round trip: for every internal 5-tuple whose three flags are \<open>0\<close> or
  \<open>1\<close> with at most one of them \<open>1\<close>, encoding the decoded stroke gives the
  tuple back: the same \<open>dx\<close>, \<open>dy\<close> and flags.
\<close>

theorem codec_roundtrip:
  assumes "d \<in> {Num (Fin 0), Num (Fin 1)}"
      and "u \<in> {Num (Fin 0), Num (Fin 1)}"
      and "e \<in> {Num (Fin 0), Num (Fin 1)}"
      and "length (filter (\<lambda>f. f = Num (Fin 1)) [d, u, e]) \<le> 1"
  shows "encode (decode [dx, dy, d, u, e]) = Inr (Arr [dx, dy, d, u, e])"
  using assms by (auto simp: encode_def decode_def arr_get_def)

theorem codec_roundtrip_witness:
  "encode (decode [Num (Fin 5), Num NaN, Num (Fin 0), Num (Fin 1), Num (Fin 0)])
     = Inr (Arr [Num (Fin 5), Num NaN, Num (Fin 0), Num (Fin 1), Num (Fin 0)]) \<and>
   encode (decode [Num (Fin 5), Num NaN, Num (Fin 0), Num (Fin 0), Num (Fin 0)])
     = Inr (Arr [Num (Fin 5), Num NaN, Num (Fin 0), Num (Fin 0), Num (Fin 0)])"
  using codec_roundtrip [of "Num (Fin 0)" "Num (Fin 1)" "Num (Fin 0)" "Num (Fin 5)" "Num NaN"]
        codec_roundtrip [of "Num (Fin 0)" "Num (Fin 0)" "Num (Fin 0)" "Num (Fin 5)" "Num NaN"]
  by simp

text \<open>
  Claim C10.  A seed stroke whose \<open>pen\<close> field holds anything other than exactly
  \<open>"down"\<close>, \<open>"up"\<close> or \<open>"end"\<close> (a misspelling, a number, ...) is encoded, not
  rejected, and its three flags are \<open>[0,0,0]\<close>.
\<close>

theorem encode_unknown_pen:
  assumes "get_prop s ''pen'' = Inr p"
      and "p \<noteq> Str ''down''" and "p \<noteq> Str ''up''" and "p \<noteq> Str ''end''"
  shows "\<exists>dx dy. get_prop s ''dx'' = Inr dx \<and> get_prop s ''dy'' = Inr dy \<and>
           encode s = Inr (Arr [dx, dy, Num (Fin 0), Num (Fin 0), Num (Fin 0)])"
proof -
  obtain dx dy where "get_prop s ''dx'' = Inr dx" "get_prop s ''dy'' = Inr dy"
    using assms(1) get_prop_total by blast
  then show ?thesis
    using assms by (simp add: encode_def strict_eq_Str)
qed

theorem encode_unknown_pen_witness:
  "(\<exists>dx dy. encode (Obj [(''dx'', Num (Fin 1)), (''dy'', Num (Fin 2)), (''pen'', Str ''Down'')])
      = Inr (Arr [dx, dy, Num (Fin 0), Num (Fin 0), Num (Fin 0)])) \<and>
   (\<exists>dx dy. encode (Obj [(''dx'', Num (Fin 1)), (''dy'', Num (Fin 2)), (''pen'', Num (Fin 1))])
      = Inr (Arr [dx, dy, Num (Fin 0), Num (Fin 0), Num (Fin 0)]))"
  using encode_unknown_pen [of "Obj [(''dx'', Num (Fin 1)), (''dy'', Num (Fin 2)), (''pen'', Str ''Down'')]" "Str ''Down''"]
        encode_unknown_pen [of "Obj [(''dx'', Num (Fin 1)), (''dy'', Num (Fin 2)), (''pen'', Num (Fin 1))]" "Num (Fin 1)"]
  by simp

section \<open>One generation step\<close>

text \<open>
  What a call of \<open>generateInternal\<close> that gets past the \<open>await\<close> does, written
  out: \<open>r0\<close> is the recurrent state after the lazy creation, \<open>m\<close> the library
  object after it, \<open>r1\<close> the recurrent state after seeding.
\<close>

lemma generateInternal_success:
  assumes "option_or_default E options ''temperature'' (temperature (defaults s)) = Inr temp"
      and "option_or_default E options ''pixelFactor'' (pixelFactor (defaults s)) = Inr pf"
      and "ready s = Fulfilled ()"
      and "r0 = (case rnnState s of Some r \<Rightarrow> r | None \<Rightarrow> ms_zeroState E (model s))"
      and "m = (if rnnState s = None then ms_setPixelFactor E (model s) pf else model s)"
      and "r1 = (case strokes of Arr ys \<Rightarrow> (if ys \<noteq> [] then ms_updateStrokes E m ys r0 else r0) | _ \<Rightarrow> r0)"
      and "r2 = ms_update E m (Arr (penState s)) r1"
      and "pdf = ms_getPDF E m r2 temp"
  shows "generateInternal E s options strokes =
           (Fulfilled (decode (fst (ms_sample E m pdf))),
            s\<lparr> rnnState := Some r2,
               penState := fst (ms_sample E m pdf),
               model := snd (ms_sample E m pdf),
               calls := calls s
                 @ (if rnnState s = None then [SetPixelFactor pf] else [])
                 @ (case strokes of Arr ys \<Rightarrow> (if ys \<noteq> [] then [UpdateStrokes ys r0] else []) | _ \<Rightarrow> [])
                 @ [Update (Arr (penState s)) r1, GetPDF r2 temp, Sample pdf] \<rparr>)"
  using assms
  by (cases "rnnState s"; cases strokes)
     (simp_all add: generateInternal_def ensure_rnnState_def seed_def step_def Let_def
        split: prod.splits)

lemma generateInternal_unsettled:
  "(\<forall>out. fst (generateInternal E s options strokes) \<noteq> Fulfilled out) \<Longrightarrow>
     snd (generateInternal E s options strokes) = s"
  by (auto simp: generateInternal_def Let_def split: sum.splits promise.splits prod.splits)

lemma generateInternal_Fulfilled_iff:
  "(\<exists>out. fst (generateInternal E s options strokes) = Fulfilled out) \<longleftrightarrow>
     (\<exists>temp pf. option_or_default E options ''temperature'' (temperature (defaults s)) = Inr temp \<and>
        option_or_default E options ''pixelFactor'' (pixelFactor (defaults s)) = Inr pf \<and>
        ready s = Fulfilled ())"
  by (auto simp: generateInternal_def Let_def split: sum.splits promise.splits prod.splits)



lemma generate_via_internal:
  assumes "overload a b c = (options, Arr xs, cb')" and "array_map encode xs = Inr strokes"
  shows "generate E s a b c = generateInternal E s options (Arr strokes)"
  using assms by (simp add: generate_def callCallback_def split: prod.splits)

lemma generate_encode_fails:
  assumes "overload a b c = (options, Arr xs, cb')" and "array_map encode xs = Inl e"
  shows "generate E s a b c = (Rejected e, s)"
  using assms by (simp add: generate_def)

lemma generate_unsettled:
  "(\<forall>out. fst (generate E s a b c) \<noteq> Fulfilled out) \<Longrightarrow> snd (generate E s a b c) = s"
  using generateInternal_unsettled [of E s]
  by (auto simp: generate_def callCallback_def split: prod.splits jsdata.splits sum.splits)

lemma generate_Fulfilled_D:
  assumes "fst (generate E s a b c) = Fulfilled out"
  obtains options xs cb' strokes temp pf where
    "overload a b c = (options, Arr xs, cb')" "array_map encode xs = Inr strokes"
    "option_or_default E options ''temperature'' (temperature (defaults s)) = Inr temp"
    "option_or_default E options ''pixelFactor'' (pixelFactor (defaults s)) = Inr pf"
    "ready s = Fulfilled ()"
proof -
  obtain options sd cb' where ov: "overload a b c = (options, sd, cb')"
    by (cases "overload a b c") auto
  from assms ov obtain xs where sd: "sd = Arr xs"
    by (cases sd) (auto simp: generate_def)
  from assms ov sd obtain strokes where enc: "array_map encode xs = Inr strokes"
    by (cases "array_map encode xs") (auto simp: generate_def)
  from ov sd have ov': "overload a b c = (options, Arr xs, cb')" by simp
  have "generate E s a b c = generateInternal E s options (Arr strokes)"
    by (rule generate_via_internal [OF ov' enc])
  with assms have "fst (generateInternal E s options (Arr strokes)) = Fulfilled out"
    by simp
  then obtain temp pf where
    "option_or_default E options ''temperature'' (temperature (defaults s)) = Inr temp"
    "option_or_default E options ''pixelFactor'' (pixelFactor (defaults s)) = Inr pf"
    "ready s = Fulfilled ()"
    using generateInternal_Fulfilled_iff [of E s options "Arr strokes"] by blast
  with ov' enc that show thesis by blast
qed


text \<open>
  Claim C1.  A call of \<open>generate\<close> whose arguments encode and convert and whose
  session is ready is fulfilled.  After the lazy creation of the recurrent state and
  the seeding, it calls \<open>update\<close> exactly once, with the pen state the session had
  when the call began (not a seed stroke) and the recurrent state \<open>r1\<close> reached by
  then; it calls \<open>getPDF\<close> exactly once, on the updated recurrent state \<open>r2\<close> and
  the resolved temperature; it calls \<open>sample\<close> exactly once, on that distribution.
  The sample becomes the new pen state, \<open>r2\<close> the new recurrent state, and the
  promise is fulfilled with the decoding of the new pen state.
\<close>

theorem generate_one_step:
  assumes "overload a b c = (options, Arr xs, cb')"
      and "array_map encode xs = Inr strokes"
      and "option_or_default E options ''temperature'' (temperature (defaults s)) = Inr temp"
      and "option_or_default E options ''pixelFactor'' (pixelFactor (defaults s)) = Inr pf"
      and "ready s = Fulfilled ()"
      and "r0 = (case rnnState s of Some r \<Rightarrow> r | None \<Rightarrow> ms_zeroState E (model s))"
      and "m = (if rnnState s = None then ms_setPixelFactor E (model s) pf else model s)"
      and "r1 = (if strokes \<noteq> [] then ms_updateStrokes E m strokes r0 else r0)"
      and "r2 = ms_update E m (Arr (penState s)) r1"
      and "pdf = ms_getPDF E m r2 temp"
      and "s' = snd (generate E s a b c)"
      and "new = drop (length (calls s)) (calls s')"
  shows "new = (if rnnState s = None then [SetPixelFactor pf] else [])
               @ (if strokes \<noteq> [] then [UpdateStrokes strokes r0] else [])
               @ [Update (Arr (penState s)) r1, GetPDF r2 temp, Sample pdf] \<and>
         calls s' = calls s @ new \<and>
         length (filter (\<lambda>x. case x of Update v r \<Rightarrow> True | _ \<Rightarrow> False) new) = 1 \<and>
         length (filter (\<lambda>x. case x of GetPDF r t \<Rightarrow> True | _ \<Rightarrow> False) new) = 1 \<and>
         length (filter (\<lambda>x. case x of Sample d \<Rightarrow> True | _ \<Rightarrow> False) new) = 1 \<and>
         rnnState s' = Some r2 \<and>
         (penState s', model s') = ms_sample E m pdf \<and>
         fst (generate E s a b c) = Fulfilled (decode (penState s'))"
proof -
  have r1: "r1 = (case Arr strokes of
                    Arr ys \<Rightarrow> (if ys \<noteq> [] then ms_updateStrokes E m ys r0 else r0)
                  | _ \<Rightarrow> r0)"
    using assms(8) by simp
  have g: "generate E s a b c = generateInternal E s options (Arr strokes)"
    by (rule generate_via_internal [OF assms(1,2)])
  note gi = generateInternal_success [OF assms(3,4,5,6,7) r1 assms(9,10)]
  show ?thesis
    unfolding assms(12) assms(11) g gi by simp
qed


theorem generate_one_step_witness:
  "fst (generate stub (SketchRNN stub ''cat'' (Data Undefined) True)
          (Data (Obj [(''temperature'', Num (Fin 0.5))]))
          (Data (Arr [Obj [(''dx'', Num (Fin 1)), (''dy'', Num (Fin 2)), (''pen'', Str ''down'')]]))
          (Data Undefined))
     = Fulfilled (Obj [(''dx'', Num (Fin 2)), (''dy'', Num (Fin 3)), (''pen'', Str ''up'')]) \<and>
   calls (snd (generate stub (SketchRNN stub ''cat'' (Data Undefined) True)
          (Data (Obj [(''temperature'', Num (Fin 0.5))]))
          (Data (Arr [Obj [(''dx'', Num (Fin 1)), (''dy'', Num (Fin 2)), (''pen'', Str ''down'')]]))
          (Data Undefined)))
     = [SetPixelFactor (Fin 3),
        UpdateStrokes [Arr [Num (Fin 1), Num (Fin 2), Num (Fin 1), Num (Fin 0), Num (Fin 0)]] [],
        Update (Arr [Num (Fin 0), Num (Fin 0), Num (Fin 1), Num (Fin 0), Num (Fin 0)])
               [Arr [Num (Fin 1), Num (Fin 2), Num (Fin 1), Num (Fin 0), Num (Fin 0)]],
        GetPDF [Arr [Num (Fin 1), Num (Fin 2), Num (Fin 1), Num (Fin 0), Num (Fin 0)],
                Arr [Num (Fin 0), Num (Fin 0), Num (Fin 1), Num (Fin 0), Num (Fin 0)]] (Fin 0.5),
        Sample ([Arr [Num (Fin 1), Num (Fin 2), Num (Fin 1), Num (Fin 0), Num (Fin 0)],
                 Arr [Num (Fin 0), Num (Fin 0), Num (Fin 1), Num (Fin 0), Num (Fin 0)]], Fin 0.5)]"
proof -
  let ?s = "SketchRNN stub ''cat'' (Data Undefined) True"
  let ?opts = "Obj [(''temperature'', Num (Fin 0.5))]"
  let ?xs = "[Obj [(''dx'', Num (Fin 1)), (''dy'', Num (Fin 2)), (''pen'', Str ''down'')]]"
  have h1: "overload (Data ?opts) (Data (Arr ?xs)) (Data Undefined) = (?opts, Arr ?xs, Data Undefined)"
    by (simp add: or_else_def)
  have h2: "array_map encode ?xs
              = Inr [Arr [Num (Fin 1), Num (Fin 2), Num (Fin 1), Num (Fin 0), Num (Fin 0)]]"
    by (simp add: encode_def)
  have h3: "option_or_default stub ?opts ''temperature'' (temperature (defaults ?s)) = Inr (Fin 0.5)"
    by (simp add: option_or_default_def)
  have h4: "option_or_default stub ?opts ''pixelFactor'' (pixelFactor (defaults ?s)) = Inr (Fin 3)"
    by (simp add: option_or_default_def SketchRNN_def Let_def)
  have h5: "ready ?s = Fulfilled ()"
    by (simp add: SketchRNN_def Let_def stub_def callCallback_def)
  have st: "rnnState ?s = None" "calls ?s = []"
    "penState ?s = [Num (Fin 0), Num (Fin 0), Num (Fin 1), Num (Fin 0), Num (Fin 0)]"
    by (simp_all add: SketchRNN_def Let_def stub_def)
  have lib: "ms_zeroState stub = (\<lambda>m. [])" "ms_setPixelFactor stub = (\<lambda>m pf. (fst m, pf))"
    "ms_updateStrokes stub = (\<lambda>m xs r. foldl (\<lambda>r' x. r' @ [x]) r xs)"
    "ms_update stub = (\<lambda>m x r. r @ [x])" "ms_getPDF stub = (\<lambda>m r temp. (r, temp))"
    "ms_sample stub = (\<lambda>m pdf. ([Num (Fin (real (length (fst pdf)))), Num (snd m),
                               Num (Fin 0), Num (Fin 1), Num (Fin 0)], (Suc (fst m), snd m)))"
    by (simp_all add: stub_def)
  note t = generate_one_step [OF h1 h2 h3 h4 h5 refl refl refl refl refl refl refl]
  from t have a: "fst (generate stub ?s (Data ?opts) (Data (Arr ?xs)) (Data Undefined))
     = Fulfilled (Obj [(''dx'', Num (Fin 2)), (''dy'', Num (Fin 3)), (''pen'', Str ''up'')])"
    by (simp add: st lib decode_def arr_get_def)
  from t have b: "calls (snd (generate stub ?s (Data ?opts) (Data (Arr ?xs)) (Data Undefined)))
     = [SetPixelFactor (Fin 3),
        UpdateStrokes [Arr [Num (Fin 1), Num (Fin 2), Num (Fin 1), Num (Fin 0), Num (Fin 0)]] [],
        Update (Arr [Num (Fin 0), Num (Fin 0), Num (Fin 1), Num (Fin 0), Num (Fin 0)])
               [Arr [Num (Fin 1), Num (Fin 2), Num (Fin 1), Num (Fin 0), Num (Fin 0)]],
        GetPDF [Arr [Num (Fin 1), Num (Fin 2), Num (Fin 1), Num (Fin 0), Num (Fin 0)],
                Arr [Num (Fin 0), Num (Fin 0), Num (Fin 1), Num (Fin 0), Num (Fin 0)]] (Fin 0.5),
        Sample ([Arr [Num (Fin 1), Num (Fin 2), Num (Fin 1), Num (Fin 0), Num (Fin 0)],
                 Arr [Num (Fin 0), Num (Fin 0), Num (Fin 1), Num (Fin 0), Num (Fin 0)]], Fin 0.5)]"
    by (simp add: st lib)
  from a b show ?thesis by blast
qed

section \<open>Reset\<close>

text \<open>
  Claim C4.  \<open>reset\<close> sets the pen state to the library's zero input.  It replaces
  the recurrent state by a fresh zero state only when one exists; a session that never
  generated keeps it absent.  Nothing else changes.  Resetting twice is resetting
  once.  The result does not depend on the \<open>ready\<close> promise, whatever its
  settlement, and \<open>reset\<close> returns the session, not a promise and not an error: it
  neither awaits nor throws, in particular on a newly constructed session, which it
  leaves as constructed.
\<close>

theorem reset_spec:
  "penState (reset E s) = ms_zeroInput E (model s) \<and>
   (rnnState s = None \<longrightarrow> rnnState (reset E s) = None) \<and>
   (rnnState s \<noteq> None \<longrightarrow> rnnState (reset E s) = Some (ms_zeroState E (model s))) \<and>
   model (reset E s) = model s \<and>
   defaults (reset E s) = defaults s \<and>
   ready (reset E s) = ready s \<and>
   calls (reset E s) = calls s \<and>
   reset E (reset E s) = reset E s \<and>
   reset E (s\<lparr> ready := p \<rparr>) = (reset E s)\<lparr> ready := p \<rparr> \<and>
   reset E (SketchRNN E name cb large) = SketchRNN E name cb large"
  by (cases "rnnState s") (simp_all add: reset_def SketchRNN_def Let_def)

theorem reset_spec_witness:
  "rnnState (reset stub (SketchRNN stub ''cat'' (Data Undefined) True)) = None \<and>
   rnnState (reset stub (snd (generate stub (SketchRNN stub ''cat'' (Data Undefined) True)
                                (Data Undefined) (Data Undefined) (Data Undefined))))
     = Some [] \<and>
   penState (reset stub (snd (generate stub (SketchRNN stub ''cat'' (Data Undefined) True)
                                (Data Undefined) (Data Undefined) (Data Undefined))))
     = [Num (Fin 0), Num (Fin 0), Num (Fin 1), Num (Fin 0), Num (Fin 0)]"
proof -
  let ?s0 = "SketchRNN stub ''cat'' (Data Undefined) True"
  let ?s1 = "snd (generate stub ?s0 (Data Undefined) (Data Undefined) (Data Undefined))"
  have a: "rnnState ?s0 = None"
    by (simp add: SketchRNN_def Let_def)
  have b: "rnnState ?s1 \<noteq> None"
    by (simp add: generate_def generateInternal_def option_or_default_def or_else_def
        SketchRNN_def stub_def callCallback_def ensure_rnnState_def seed_def step_def Let_def)
  have lib: "ms_zeroState stub = (\<lambda>m. [])"
    "ms_zeroInput stub = (\<lambda>m. [Num (Fin 0), Num (Fin 0), Num (Fin 1), Num (Fin 0), Num (Fin 0)])"
    by (simp_all add: stub_def)
  from reset_spec [of stub ?s0] a have "rnnState (reset stub ?s0) = None"
    by blast
  moreover from reset_spec [of stub ?s1] b have "rnnState (reset stub ?s1) = Some []"
    by (simp add: lib)
  moreover from reset_spec [of stub ?s1]
  have "penState (reset stub ?s1) = [Num (Fin 0), Num (Fin 0), Num (Fin 1), Num (Fin 0), Num (Fin 0)]"
    by (simp add: lib)
  ultimately show ?thesis by blast
qed

section \<open>Sessions in use\<close>

lemma generate_Fulfilled_effect:
  assumes "fst (generate E s a b c) = Fulfilled out"
  shows "\<exists>temp pf strokes r0 r1 r2 pdf m.
           option_or_default E (fst (overload a b c)) ''temperature'' (temperature (defaults s)) = Inr temp \<and>
           option_or_default E (fst (overload a b c)) ''pixelFactor'' (pixelFactor (defaults s)) = Inr pf \<and>
           ready s = Fulfilled () \<and>
           snd (generate E s a b c) =
             s\<lparr> rnnState := Some r2,
                penState := fst (ms_sample E m pdf),
                model := snd (ms_sample E m pdf),
                calls := calls s
                  @ (if rnnState s = None then [SetPixelFactor pf] else [])
                  @ (if strokes \<noteq> [] then [UpdateStrokes strokes r0] else [])
                  @ [Update (Arr (penState s)) r1, GetPDF r2 temp, Sample pdf] \<rparr>"
proof -
  from assms obtain options xs cb' strokes temp pf where
    ov: "overload a b c = (options, Arr xs, cb')" and enc: "array_map encode xs = Inr strokes" and
    t: "option_or_default E options ''temperature'' (temperature (defaults s)) = Inr temp" and
    p: "option_or_default E options ''pixelFactor'' (pixelFactor (defaults s)) = Inr pf" and
    r: "ready s = Fulfilled ()"
    by (rule generate_Fulfilled_D)
  have g: "generate E s a b c = generateInternal E s options (Arr strokes)"
    by (rule generate_via_internal [OF ov enc])
  note gi = generateInternal_success [OF t p r refl refl refl refl refl, of "Arr strokes"]
  show ?thesis
    unfolding g gi using t p r ov by (simp del: split_paired_Ex) blast
qed

lemma generate_defaults: "defaults (snd (generate E s a b c)) = defaults s"
proof (cases "\<exists>out. fst (generate E s a b c) = Fulfilled out")
  case True
  then obtain out where "fst (generate E s a b c) = Fulfilled out" ..
  from generate_Fulfilled_effect [OF this] show ?thesis by auto
next
  case False
  then show ?thesis by (simp add: generate_unsettled)
qed

lemma apply_op_defaults: "defaults (apply_op E s op) = defaults s"
  by (cases op) (simp_all add: generate_defaults reset_def Let_def split: option.splits)

lemma run_defaults: "defaults (run E s ops) = defaults s"
  unfolding run_def by (induction ops arbitrary: s) (simp_all add: apply_op_defaults)

lemma run_constructor_defaults:
  "defaults (run E (SketchRNN E name cb large) ops) = \<lparr> temperature = Fin 0.65, pixelFactor = Fin 3 \<rparr>"
  by (simp add: run_defaults SketchRNN_def Let_def)

lemma generateInternal_falsy_temperature:
  "generateInternal E s (Obj [(''temperature'', Num (Fin 0))]) strokes
     = generateInternal E s (Obj []) strokes"
  by (simp add: generateInternal_def option_or_default_def)

lemma generate_falsy_temperature:
  "generate E s (Data (Obj [(''temperature'', Num (Fin 0))])) b c = generate E s (Data (Obj [])) b c"
  by (cases b)
     (simp_all add: generate_def generateInternal_falsy_temperature or_else_def
        split: jsdata.splits sum.splits)

text \<open>
  Claim C5.  In every session made by the constructor, whatever was done with it
  since, an option is resolved by converting its value to a number and keeping that
  number when it is truthy; otherwise the default is taken, \<open>0.65\<close> for the
  temperature and \<open>3.0\<close> for the pixel factor.  The resolved temperature is the one
  a fulfilled call hands to \<open>getPDF\<close>.  Since \<open>0\<close> is falsy,
  \<open>generate({temperature: 0})\<close> is the same call as \<open>generate({})\<close>.
\<close>

theorem option_resolution:
  assumes "s = run E (SketchRNN E name cb0 large) ops"
  shows "(get_prop options ''temperature'' = Inr v \<and> ToNumber (rt_ToNumber E) v = Inr n \<longrightarrow>
            option_or_default E options ''temperature'' (temperature (defaults s))
              = Inr (if num_truthy n then n else Fin 0.65)) \<and>
         (get_prop options ''pixelFactor'' = Inr v \<and> ToNumber (rt_ToNumber E) v = Inr n \<longrightarrow>
            option_or_default E options ''pixelFactor'' (pixelFactor (defaults s))
              = Inr (if num_truthy n then n else Fin 3.0)) \<and>
         (fst (generate E s a b c) = Fulfilled out \<longrightarrow>
            (\<exists>temp r. option_or_default E (fst (overload a b c)) ''temperature'' (Fin 0.65) = Inr temp \<and>
               GetPDF r temp \<in> set (drop (length (calls s)) (calls (snd (generate E s a b c)))))) \<and>
         option_or_default E (Obj [(''temperature'', Num (Fin 0))]) ''temperature''
              (temperature (defaults s)) = Inr (Fin 0.65) \<and>
         generate E s (Data (Obj [(''temperature'', Num (Fin 0))])) b c
           = generate E s (Data (Obj [])) b c"
proof -
  have d: "defaults s = \<lparr> temperature = Fin 0.65, pixelFactor = Fin 3 \<rparr>"
    unfolding assms by (rule run_constructor_defaults)
  have 1: "get_prop options ''temperature'' = Inr v \<and> ToNumber (rt_ToNumber E) v = Inr n \<longrightarrow>
            option_or_default E options ''temperature'' (temperature (defaults s))
              = Inr (if num_truthy n then n else Fin 0.65)"
    by (simp add: option_or_default_def d)
  have 2: "get_prop options ''pixelFactor'' = Inr v \<and> ToNumber (rt_ToNumber E) v = Inr n \<longrightarrow>
            option_or_default E options ''pixelFactor'' (pixelFactor (defaults s))
              = Inr (if num_truthy n then n else Fin 3.0)"
    by (simp add: option_or_default_def d)
  have 3: "fst (generate E s a b c) = Fulfilled out \<longrightarrow>
            (\<exists>temp r. option_or_default E (fst (overload a b c)) ''temperature'' (Fin 0.65) = Inr temp \<and>
               GetPDF r temp \<in> set (drop (length (calls s)) (calls (snd (generate E s a b c)))))"
  proof
    assume "fst (generate E s a b c) = Fulfilled out"
    from generate_Fulfilled_effect [OF this] show
      "\<exists>temp r. option_or_default E (fst (overload a b c)) ''temperature'' (Fin 0.65) = Inr temp \<and>
               GetPDF r temp \<in> set (drop (length (calls s)) (calls (snd (generate E s a b c))))"
      by (auto simp: d)
  qed
  have 4: "option_or_default E (Obj [(''temperature'', Num (Fin 0))]) ''temperature''
              (temperature (defaults s)) = Inr (Fin 0.65)"
    by (simp add: option_or_default_def d)
  from 1 2 3 4 generate_falsy_temperature [of E s b c] show ?thesis by blast
qed


theorem option_resolution_witness:
  "option_or_default stub (Obj [(''temperature'', Num (Fin 0.2))]) ''temperature''
     (temperature (defaults (run stub (SketchRNN stub ''cat'' (Data Undefined) True) [Reset])))
     = Inr (Fin 0.2) \<and>
   option_or_default stub (Obj [(''temperature'', Num NegZero)]) ''temperature''
     (temperature (defaults (run stub (SketchRNN stub ''cat'' (Data Undefined) True) [Reset])))
     = Inr (Fin 0.65) \<and>
   option_or_default stub (Obj [(''pixelFactor'', Null)]) ''pixelFactor''
     (pixelFactor (defaults (run stub (SketchRNN stub ''cat'' (Data Undefined) True) [Reset])))
     = Inr (Fin 3) \<and>
   (\<exists>r. GetPDF r (Fin 0.65) \<in> set (calls (snd
      (generate stub (run stub (SketchRNN stub ''cat'' (Data Undefined) True) [])
         (Data Undefined) (Data Undefined) (Data Undefined)))))"
proof -
  let ?s0 = "SketchRNN stub ''cat'' (Data Undefined) True"
  note t = option_resolution [OF refl, where E = stub and name = "''cat''"
      and ?cb0.0 = "Data Undefined" and large = True]
  have 1: "option_or_default stub (Obj [(''temperature'', Num (Fin 0.2))]) ''temperature''
             (temperature (defaults (run stub ?s0 [Reset]))) = Inr (Fin 0.2)"
    using t [where ops = "[Reset]" and options = "Obj [(''temperature'', Num (Fin 0.2))]"
        and v = "Num (Fin 0.2)" and n = "Fin 0.2"]
    by simp
  have 2: "option_or_default stub (Obj [(''temperature'', Num NegZero)]) ''temperature''
             (temperature (defaults (run stub ?s0 [Reset]))) = Inr (Fin 0.65)"
    using t [where ops = "[Reset]" and options = "Obj [(''temperature'', Num NegZero)]"
        and v = "Num NegZero" and n = NegZero]
    by simp
  have 3: "option_or_default stub (Obj [(''pixelFactor'', Null)]) ''pixelFactor''
             (pixelFactor (defaults (run stub ?s0 [Reset]))) = Inr (Fin 3)"
    using t [where ops = "[Reset]" and options = "Obj [(''pixelFactor'', Null)]"
        and v = Null and n = "Fin 0"]
    by simp
  have f: "fst (generate stub (run stub ?s0 []) (Data Undefined) (Data Undefined) (Data Undefined))
             = Fulfilled (Obj [(''dx'', Num (Fin 1)), (''dy'', Num (Fin 3)), (''pen'', Str ''up'')])"
    by (simp add: run_def generate_def generateInternal_def option_or_default_def or_else_def
        SketchRNN_def stub_def callCallback_def ensure_rnnState_def seed_def step_def Let_def
        decode_def arr_get_def)
  have o: "option_or_default stub
             (fst (overload (Data Undefined) (Data Undefined) (Data Undefined)))
             ''temperature'' (Fin 0.65) = Inr temp \<longleftrightarrow> temp = Fin 0.65" for temp
    by (auto simp: option_or_default_def or_else_def)
  have 4: "\<exists>r. GetPDF r (Fin 0.65) \<in> set (calls (snd
      (generate stub (run stub ?s0 []) (Data Undefined) (Data Undefined) (Data Undefined))))"
    using t [where ops = "[]" and a = "Data Undefined" and b = "Data Undefined"
        and c = "Data Undefined"
        and out = "Obj [(''dx'', Num (Fin 1)), (''dy'', Num (Fin 3)), (''pen'', Str ''up'')]"] f
    unfolding o by (blast dest: in_set_dropD)
  from 1 2 3 4 show ?thesis by blast
qed









section \<open>Seeding\<close>

lemma array_map_Inr:
  "array_map f xs = Inr ys \<Longrightarrow> map f xs = map Inr ys"
  by (induction xs arbitrary: ys) (auto split: sum.splits)

lemma array_map_Inl:
  "array_map f xs = Inl e \<Longrightarrow> \<exists>x \<in> set xs. f x = Inl e"
  by (induction xs) (auto split: sum.splits)

text \<open>
  Claim C3.  Take a \<open>generate\<close> call with a non-empty seed array whose strokes
  encode, on a ready session with convertible options.  The encodings, in the order of
  the seed array, are handed to the library's \<open>updateStrokes\<close> in one call, with the
  recurrent state the session has after its lazy creation.  That step changes the
  recurrent state and nothing else of the session (pen state and library object are
  as before) and produces no stroke.  If the library's \<open>updateStrokes\<close> is the
  left-to-right fold of \<open>update\<close> over the strokes, the recurrent state after
  seeding is that fold.  The call then makes its one update with the pen state it
  started with, samples once, and is fulfilled with that one stroke.
\<close>

theorem seeding:
  assumes "overload a b c = (options, Arr xs, cb')"
      and "xs \<noteq> []"
      and "array_map encode xs = Inr strokes"
      and "option_or_default E options ''temperature'' (temperature (defaults s)) = Inr temp"
      and "option_or_default E options ''pixelFactor'' (pixelFactor (defaults s)) = Inr pf"
      and "ready s = Fulfilled ()"
      and "r0 = (case rnnState s of Some r \<Rightarrow> r | None \<Rightarrow> ms_zeroState E (model s))"
      and "m = (if rnnState s = None then ms_setPixelFactor E (model s) pf else model s)"
      and "r1 = ms_updateStrokes E m strokes r0"
      and "s' = snd (generate E s a b c)"
  shows "map encode xs = map Inr strokes \<and>
         seed E (Arr strokes) r (t :: ('m, 'r, 'p) session)
           = (ms_updateStrokes E (model t) strokes r,
              t\<lparr> rnnState := Some (ms_updateStrokes E (model t) strokes r),
                 calls := calls t @ [UpdateStrokes strokes r] \<rparr>) \<and>
         penState (snd (seed E (Arr strokes) r t)) = penState t \<and>
         model (snd (seed E (Arr strokes) r t)) = model t \<and>
         ((\<forall>m' ys r'. ms_updateStrokes E m' ys r' = foldl (\<lambda>acc y. ms_update E m' y acc) r' ys) \<longrightarrow>
            r1 = foldl (\<lambda>acc y. ms_update E m y acc) r0 strokes) \<and>
         rnnState s' = Some (ms_update E m (Arr (penState s)) r1) \<and>
         drop (length (calls s) + (if rnnState s = None then 1 else 0)) (calls s')
           = [UpdateStrokes strokes r0,
              Update (Arr (penState s)) r1,
              GetPDF (ms_update E m (Arr (penState s)) r1) temp,
              Sample (ms_getPDF E m (ms_update E m (Arr (penState s)) r1) temp)] \<and>
         penState s'
           = fst (ms_sample E m (ms_getPDF E m (ms_update E m (Arr (penState s)) r1) temp)) \<and>
         fst (generate E s a b c) = Fulfilled (decode (penState s'))"
proof -
  from assms(2,3) have ne: "strokes \<noteq> []" by (cases xs) (auto split: sum.splits)
  have g: "generate E s a b c = generateInternal E s options (Arr strokes)"
    by (rule generate_via_internal [OF assms(1,3)])
  have r1: "r1 = (case Arr strokes of
                    Arr ys \<Rightarrow> (if ys \<noteq> [] then ms_updateStrokes E m ys r0 else r0)
                  | _ \<Rightarrow> r0)"
    using assms(9) ne by simp
  note gi = generateInternal_success [OF assms(4,5,6,7,8) r1 refl refl]
  have 1: "map encode xs = map Inr strokes"
    by (rule array_map_Inr [OF assms(3)])
  have 2: "seed E (Arr strokes) r t
           = (ms_updateStrokes E (model t) strokes r,
              t\<lparr> rnnState := Some (ms_updateStrokes E (model t) strokes r),
                 calls := calls t @ [UpdateStrokes strokes r] \<rparr>)"
    using ne by (simp add: seed_def Let_def)
  have 3: "penState (snd (seed E (Arr strokes) r t)) = penState t"
    and 4: "model (snd (seed E (Arr strokes) r t)) = model t"
    unfolding 2 by simp_all
  have 5: "(\<forall>m' ys r'. ms_updateStrokes E m' ys r' = foldl (\<lambda>acc y. ms_update E m' y acc) r' ys) \<longrightarrow>
            r1 = foldl (\<lambda>acc y. ms_update E m y acc) r0 strokes"
    using assms(9) by simp
  have 6: "rnnState s' = Some (ms_update E m (Arr (penState s)) r1)"
    unfolding assms(10) g gi by simp
  have 7: "drop (length (calls s) + (if rnnState s = None then 1 else 0)) (calls s')
           = [UpdateStrokes strokes r0,
              Update (Arr (penState s)) r1,
              GetPDF (ms_update E m (Arr (penState s)) r1) temp,
              Sample (ms_getPDF E m (ms_update E m (Arr (penState s)) r1) temp)]"
    unfolding assms(10) g gi using ne by simp
  have 8: "fst (generate E s a b c) = Fulfilled (decode (penState s'))"
    unfolding assms(10) g gi by simp
  have 9: "penState s'
           = fst (ms_sample E m (ms_getPDF E m (ms_update E m (Arr (penState s)) r1) temp))"
    unfolding assms(10) g gi by simp
  show ?thesis
    by (intro conjI) (fact 1 2 3 4 5 6 7 8 9)+
qed


theorem seeding_witness:
  "rnnState (snd (generate stub (SketchRNN stub ''cat'' (Data Undefined) True)
       (Data (Obj []))
       (Data (Arr [Obj [(''dx'', Num (Fin 1)), (''dy'', Num (Fin 2))],
                   Obj [(''dx'', Num (Fin 3)), (''dy'', Num (Fin 4)), (''pen'', Str ''up'')]]))
       (Data Undefined)))
     = Some [Arr [Num (Fin 1), Num (Fin 2), Num (Fin 0), Num (Fin 0), Num (Fin 0)],
             Arr [Num (Fin 3), Num (Fin 4), Num (Fin 0), Num (Fin 1), Num (Fin 0)],
             Arr [Num (Fin 0), Num (Fin 0), Num (Fin 1), Num (Fin 0), Num (Fin 0)]] \<and>
   fst (generate stub (SketchRNN stub ''cat'' (Data Undefined) True)
       (Data (Obj []))
       (Data (Arr [Obj [(''dx'', Num (Fin 1)), (''dy'', Num (Fin 2))],
                   Obj [(''dx'', Num (Fin 3)), (''dy'', Num (Fin 4)), (''pen'', Str ''up'')]]))
       (Data Undefined))
     = Fulfilled (Obj [(''dx'', Num (Fin 3)), (''dy'', Num (Fin 3)), (''pen'', Str ''up'')])"
proof -
  let ?s = "SketchRNN stub ''cat'' (Data Undefined) True"
  let ?xs = "[Obj [(''dx'', Num (Fin 1)), (''dy'', Num (Fin 2))],
              Obj [(''dx'', Num (Fin 3)), (''dy'', Num (Fin 4)), (''pen'', Str ''up'')]]"
  let ?strokes = "[Arr [Num (Fin 1), Num (Fin 2), Num (Fin 0), Num (Fin 0), Num (Fin 0)],
                   Arr [Num (Fin 3), Num (Fin 4), Num (Fin 0), Num (Fin 1), Num (Fin 0)]]"
  have h1: "overload (Data (Obj [])) (Data (Arr ?xs)) (Data Undefined)
              = (Obj [], Arr ?xs, Data Undefined)"
    by (simp add: or_else_def)
  have h2: "?xs \<noteq> []" by simp
  have h3: "array_map encode ?xs = Inr ?strokes"
    by (simp add: encode_def)
  have h4: "option_or_default stub (Obj []) ''temperature'' (temperature (defaults ?s)) = Inr (Fin 0.65)"
    by (simp add: option_or_default_def SketchRNN_def Let_def)
  have h5: "option_or_default stub (Obj []) ''pixelFactor'' (pixelFactor (defaults ?s)) = Inr (Fin 3)"
    by (simp add: option_or_default_def SketchRNN_def Let_def)
  have h6: "ready ?s = Fulfilled ()"
    by (simp add: SketchRNN_def Let_def stub_def callCallback_def)
  have st: "rnnState ?s = None"
    "penState ?s = [Num (Fin 0), Num (Fin 0), Num (Fin 1), Num (Fin 0), Num (Fin 0)]"
    by (simp_all add: SketchRNN_def Let_def stub_def)
  have lib: "ms_zeroState stub = (\<lambda>m. [])" "ms_setPixelFactor stub = (\<lambda>m pf. (fst m, pf))"
    "ms_update stub = (\<lambda>m x r. r @ [x])" "ms_getPDF stub = (\<lambda>m r temp. (r, temp))"
    "ms_sample stub = (\<lambda>m pdf. ([Num (Fin (real (length (fst pdf)))), Num (snd m),
                               Num (Fin 0), Num (Fin 1), Num (Fin 0)], (Suc (fst m), snd m)))"
    by (simp_all add: stub_def)
  have fold: "\<forall>m' ys r'. ms_updateStrokes stub m' ys r'
                = foldl (\<lambda>acc y. ms_update stub m' y acc) r' ys"
    by (simp add: stub_def)
  note t = seeding [OF h1 h2 h3 h4 h5 h6 refl refl refl refl, where r = "[]" and t = ?s]
  from t fold have r1: "ms_updateStrokes stub
         (if rnnState ?s = None then ms_setPixelFactor stub (model ?s) (Fin 3) else model ?s)
         ?strokes
         (case rnnState ?s of Some r \<Rightarrow> r | None \<Rightarrow> ms_zeroState stub (model ?s))
       = foldl (\<lambda>acc y. ms_update stub
            (if rnnState ?s = None then ms_setPixelFactor stub (model ?s) (Fin 3) else model ?s) y acc)
           (case rnnState ?s of Some r \<Rightarrow> r | None \<Rightarrow> ms_zeroState stub (model ?s)) ?strokes"
    by blast
  from t have a: "rnnState (snd (generate stub ?s (Data (Obj [])) (Data (Arr ?xs)) (Data Undefined)))
     = Some (?strokes @ [Arr [Num (Fin 0), Num (Fin 0), Num (Fin 1), Num (Fin 0), Num (Fin 0)]])"
    unfolding r1 by (simp add: st lib)
  from t have b: "fst (generate stub ?s (Data (Obj [])) (Data (Arr ?xs)) (Data Undefined))
     = Fulfilled (Obj [(''dx'', Num (Fin 3)), (''dy'', Num (Fin 3)), (''pen'', Str ''up'')])"
    unfolding r1 by (simp add: st lib decode_def arr_get_def)
  from a b show ?thesis by simp
qed

section \<open>Malformed seed strokes\<close>

lemma encode_Inl_iff: "encode x = Inl e \<longleftrightarrow> (x = Undefined \<or> x = Null) \<and> e = TypeError"
  by (cases x) (auto simp: encode_def)

lemma array_map_encode_Inl_iff:
  "(\<exists>e. array_map encode xs = Inl e) \<longleftrightarrow> (\<exists>x \<in> set xs. x = Undefined \<or> x = Null)"
proof
  assume "\<exists>e. array_map encode xs = Inl e"
  then show "\<exists>x \<in> set xs. x = Undefined \<or> x = Null"
    using array_map_Inl [of encode xs] encode_Inl_iff by blast
next
  assume bad: "\<exists>x \<in> set xs. x = Undefined \<or> x = Null"
  show "\<exists>e. array_map encode xs = Inl e"
  proof (rule ccontr)
    assume "\<not> (\<exists>e. array_map encode xs = Inl e)"
    then obtain ys where "array_map encode xs = Inr ys"
      by (cases "array_map encode xs") auto
    then have "map encode xs = map Inr ys" by (rule array_map_Inr)
    then have "\<forall>x \<in> set xs. \<exists>y. encode x = Inr y"
      by (metis (no_types, lifting) imageE image_eqI list.set_map)
    with bad show False by (auto simp: encode_def)
  qed
qed

lemma array_map_encode_error:
  "array_map encode xs = Inl e \<Longrightarrow> e = TypeError"
  using array_map_Inl [of encode xs e] encode_Inl_iff by blast


text \<open>
  Claim C9, as stated, fails: a seed stroke without \<open>dx\<close> is encoded with
  \<open>undefined\<close> in its place, and the call goes on to create the recurrent state,
  seed it with that vector, sample and return a stroke.
\<close>

theorem malformed_seed_counterexample:
  "encode (Obj [(''dy'', Num (Fin 1))])
     = Inr (Arr [Undefined, Num (Fin 1), Num (Fin 0), Num (Fin 0), Num (Fin 0)]) \<and>
   rnnState (SketchRNN stub ''cat'' (Data Undefined) True) = None \<and>
   fst (generate stub (SketchRNN stub ''cat'' (Data Undefined) True)
          (Data (Obj [])) (Data (Arr [Obj [(''dy'', Num (Fin 1))]])) (Data Undefined))
     = Fulfilled (Obj [(''dx'', Num (Fin 2)), (''dy'', Num (Fin 3)), (''pen'', Str ''up'')]) \<and>
   rnnState (snd (generate stub (SketchRNN stub ''cat'' (Data Undefined) True)
          (Data (Obj [])) (Data (Arr [Obj [(''dy'', Num (Fin 1))]])) (Data Undefined)))
     = Some [Arr [Undefined, Num (Fin 1), Num (Fin 0), Num (Fin 0), Num (Fin 0)],
             Arr [Num (Fin 0), Num (Fin 0), Num (Fin 1), Num (Fin 0), Num (Fin 0)]]"
  by (simp add: encode_def generate_def generateInternal_def option_or_default_def or_else_def
      SketchRNN_def stub_def callCallback_def ensure_rnnState_def seed_def step_def Let_def
      decode_def arr_get_def)

text \<open>
  Claim C9, amended.  Encoding fails only on a seed element that is \<open>undefined\<close>
  or \<open>null\<close>, with a TypeError; then \<open>generate\<close> is rejected with the session
  exactly as it was.  A stroke object that lacks \<open>dx\<close> or \<open>dy\<close> is not rejected:
  it is encoded with \<open>undefined\<close> in the missing place, and when no seed element is
  \<open>undefined\<close> or \<open>null\<close> a call on a ready session with convertible options is
  fulfilled and leaves a recurrent state behind.
\<close>

theorem seed_stroke_validation:
  "(encode x = Inl e \<longleftrightarrow> (x = Undefined \<or> x = Null) \<and> e = TypeError) \<and>
   (map_of fs ''dx'' = None \<longrightarrow>
      (\<exists>dy d u e'. encode (Obj fs) = Inr (Arr [Undefined, dy, d, u, e']))) \<and>
   (map_of fs ''dy'' = None \<longrightarrow>
      (\<exists>dx d u e'. encode (Obj fs) = Inr (Arr [dx, Undefined, d, u, e']))) \<and>
   (overload a b c = (options, Arr xs, cb') \<and> (\<exists>x \<in> set xs. x = Undefined \<or> x = Null) \<longrightarrow>
      generate E s a b c = (Rejected TypeError, s)) \<and>
   (overload a b c = (options, Arr xs, cb') \<and> (\<forall>x \<in> set xs. x \<noteq> Undefined \<and> x \<noteq> Null) \<and>
    option_or_default E options ''temperature'' (temperature (defaults s)) = Inr temp \<and>
    option_or_default E options ''pixelFactor'' (pixelFactor (defaults s)) = Inr pf \<and>
    ready s = Fulfilled () \<longrightarrow>
      (\<exists>out. fst (generate E s a b c) = Fulfilled out) \<and>
      rnnState (snd (generate E s a b c)) \<noteq> None)"
proof -
  have 1: "encode x = Inl e \<longleftrightarrow> (x = Undefined \<or> x = Null) \<and> e = TypeError"
    by (rule encode_Inl_iff)
  have 2: "map_of fs ''dx'' = None \<longrightarrow>
      (\<exists>dy d u e'. encode (Obj fs) = Inr (Arr [Undefined, dy, d, u, e']))"
    by (simp add: encode_def)
  have 3: "map_of fs ''dy'' = None \<longrightarrow>
      (\<exists>dx d u e'. encode (Obj fs) = Inr (Arr [dx, Undefined, d, u, e']))"
    by (simp add: encode_def)
  have 4: "overload a b c = (options, Arr xs, cb') \<and> (\<exists>x \<in> set xs. x = Undefined \<or> x = Null) \<longrightarrow>
      generate E s a b c = (Rejected TypeError, s)"
  proof
    assume h: "overload a b c = (options, Arr xs, cb') \<and> (\<exists>x \<in> set xs. x = Undefined \<or> x = Null)"
    then obtain e where e: "array_map encode xs = Inl e"
      using array_map_encode_Inl_iff [of xs] by blast
    then have "e = TypeError" by (rule array_map_encode_error)
    with h e show "generate E s a b c = (Rejected TypeError, s)"
      using generate_encode_fails [of a b c options xs cb' e E s] by simp
  qed
  have 5: "overload a b c = (options, Arr xs, cb') \<and> (\<forall>x \<in> set xs. x \<noteq> Undefined \<and> x \<noteq> Null) \<and>
    option_or_default E options ''temperature'' (temperature (defaults s)) = Inr temp \<and>
    option_or_default E options ''pixelFactor'' (pixelFactor (defaults s)) = Inr pf \<and>
    ready s = Fulfilled () \<longrightarrow>
      (\<exists>out. fst (generate E s a b c) = Fulfilled out) \<and>
      rnnState (snd (generate E s a b c)) \<noteq> None"
  proof
    assume h: "overload a b c = (options, Arr xs, cb') \<and> (\<forall>x \<in> set xs. x \<noteq> Undefined \<and> x \<noteq> Null) \<and>
      option_or_default E options ''temperature'' (temperature (defaults s)) = Inr temp \<and>
      option_or_default E options ''pixelFactor'' (pixelFactor (defaults s)) = Inr pf \<and>
      ready s = Fulfilled ()"
    then have "\<not> (\<exists>e. array_map encode xs = Inl e)"
      using array_map_encode_Inl_iff [of xs] by blast
    then obtain strokes where enc: "array_map encode xs = Inr strokes"
      by (cases "array_map encode xs") auto
    from h have ov: "overload a b c = (options, Arr xs, cb')" by simp
    have g: "generate E s a b c = generateInternal E s options (Arr strokes)"
      by (rule generate_via_internal [OF ov enc])
    from h have "\<exists>out. fst (generateInternal E s options (Arr strokes)) = Fulfilled out"
      using generateInternal_Fulfilled_iff [of E s options "Arr strokes"] by blast
    then obtain out where f: "fst (generate E s a b c) = Fulfilled out"
      unfolding g by blast
    from generate_Fulfilled_effect [OF f] have "rnnState (snd (generate E s a b c)) \<noteq> None"
      by auto
    with f show "(\<exists>out. fst (generate E s a b c) = Fulfilled out) \<and>
      rnnState (snd (generate E s a b c)) \<noteq> None"
      by blast
  qed
  show ?thesis
    by (intro conjI) (fact 1 2 3 4 5)+
qed

theorem seed_stroke_validation_witness:
  "(\<exists>dy d u e'. encode (Obj [(''dy'', Num (Fin 1))]) = Inr (Arr [Undefined, dy, d, u, e'])) \<and>
   (\<exists>dx d u e'. encode (Obj [(''dx'', Num (Fin 1))]) = Inr (Arr [dx, Undefined, d, u, e'])) \<and>
   generate stub (SketchRNN stub ''cat'' (Data Undefined) True)
       (Data (Obj [])) (Data (Arr [Obj [(''dx'', Num (Fin 1)), (''dy'', Num (Fin 1))], Null]))
       (Data Undefined)
     = (Rejected TypeError, SketchRNN stub ''cat'' (Data Undefined) True) \<and>
   (\<exists>out. fst (generate stub (SketchRNN stub ''cat'' (Data Undefined) True)
       (Data (Obj [])) (Data (Arr [Obj [(''dy'', Num (Fin 1))]])) (Data Undefined))
      = Fulfilled out)"
proof -
  let ?s = "SketchRNN stub ''cat'' (Data Undefined) True"
  have h4: "option_or_default stub (Obj []) ''temperature'' (temperature (defaults ?s)) = Inr (Fin 0.65)"
    by (simp add: option_or_default_def SketchRNN_def Let_def)
  have h5: "option_or_default stub (Obj []) ''pixelFactor'' (pixelFactor (defaults ?s)) = Inr (Fin 3)"
    by (simp add: option_or_default_def SketchRNN_def Let_def)
  have h6: "ready ?s = Fulfilled ()"
    by (simp add: SketchRNN_def Let_def stub_def callCallback_def)
  have A: "\<exists>dy d u e'. encode (Obj [(''dy'', Num (Fin 1))]) = Inr (Arr [Undefined, dy, d, u, e'])"
    using seed_stroke_validation [where fs = "[(''dy'', Num (Fin 1))]",
        THEN conjunct2, THEN conjunct1]
    by simp
  have B: "\<exists>dx d u e'. encode (Obj [(''dx'', Num (Fin 1))]) = Inr (Arr [dx, Undefined, d, u, e'])"
    using seed_stroke_validation [where fs = "[(''dx'', Num (Fin 1))]",
        THEN conjunct2, THEN conjunct2, THEN conjunct1]
    by simp
  have C: "generate stub ?s (Data (Obj []))
             (Data (Arr [Obj [(''dx'', Num (Fin 1)), (''dy'', Num (Fin 1))], Null])) (Data Undefined)
           = (Rejected TypeError, ?s)"
    using seed_stroke_validation [where a = "Data (Obj [])"
        and b = "Data (Arr [Obj [(''dx'', Num (Fin 1)), (''dy'', Num (Fin 1))], Null])"
        and c = "Data Undefined" and options = "Obj []"
        and xs = "[Obj [(''dx'', Num (Fin 1)), (''dy'', Num (Fin 1))], Null]"
        and cb' = "Data Undefined" and E = stub and s = ?s,
        THEN conjunct2, THEN conjunct2, THEN conjunct2, THEN conjunct1]
    by (simp add: or_else_def)
  have D: "\<exists>out. fst (generate stub ?s (Data (Obj []))
             (Data (Arr [Obj [(''dy'', Num (Fin 1))]])) (Data Undefined)) = Fulfilled out"
    using seed_stroke_validation [where a = "Data (Obj [])"
        and b = "Data (Arr [Obj [(''dy'', Num (Fin 1))]])"
        and c = "Data Undefined" and options = "Obj []"
        and xs = "[Obj [(''dy'', Num (Fin 1))]]"
        and cb' = "Data Undefined" and E = stub and s = ?s
        and temp = "Fin 0.65" and pf = "Fin 3",
        THEN conjunct2, THEN conjunct2, THEN conjunct2, THEN conjunct2] h4 h5 h6
    by (simp add: or_else_def)
  from A B C D show ?thesis by (intro conjI)
qed

section \<open>Lifecycle of the recurrent state\<close>










end
